theory Spec2Isabelle
  imports Complex_Main "HOL-Library.Product_Lexorder" "HOL-Library.Multiset"
    "HOL-Library.List_Lexorder" "HOL-Library.Char_ord"
begin

section \<open>Data model (pkg/models)\<close>

text \<open>
  An instant of \<open>time.Time\<close> and a \<open>time.Duration\<close> are integers (nanoseconds), \<open>int64\<close>
  row ids are integers, \<open>string\<close> and \<open>[]byte\<close> are byte lists. The weighted average of
  the scoring functions is taken in exact arithmetic (\<open>float64\<close> as the real numbers);
  the cosine similarity itself is also given in binary64 arithmetic, with rounding,
  infinities and NaN.
\<close>

type_synonym time = int
type_synonym bytes = string

record Feed =
  Feed_ID :: int
  Feed_URL :: string
  Feed_Name :: string
  Feed_Enabled :: bool
  Feed_CreatedAt :: time

record Article =
  ID :: int
  FeedID :: int
  Title :: string
  URL :: string
  Content :: string
  Description :: string
  PublishedAt :: time
  FetchedAt :: time
  RelevanceScore :: real

record UserInterest =
  Interest_ID :: int
  Interest_Description :: string
  Weight :: real
  Embedding :: bytes

record ReadArticle =
  ArticleID :: int
  ReadAt :: time

text \<open>
  The fields of \<open>gofeed.Item\<close> that \<open>convertToArticle\<close> reads. The two parsed
  timestamps are pointers in Go: \<open>None\<close> is \<open>nil\<close>.
\<close>

record Item =
  Item_Title :: string
  Link :: string
  Item_Content :: string
  Item_Description :: string
  PublishedParsed :: "time option"
  UpdatedParsed :: "time option"

text \<open>
  Errors as values. \<open>Wrap msg e\<close> is \<open>fmt.Errorf("msg: %w", e)\<close>. A Go function
  returning \<open>(v, err)\<close> returns a pair whose second component is \<open>None\<close> for \<open>nil\<close>.
\<close>

datatype error =
    ConstraintFailed string
  | ProviderError
  | UnmarshalError
  | FetchError
  | ScanError
  | Wrap string error

text \<open>The value an \<open>int64\<close> (a \<open>time.Duration\<close>) holds after an operation whose exact
  result is \<open>x\<close>: two's complement wrap-around.\<close>

definition wrap64 :: "int \<Rightarrow> int" where
  "wrap64 x = (x + 2 ^ 63) mod 2 ^ 64 - 2 ^ 63"

section \<open>The store (internal/database)\<close>

text \<open>
  The four tables of \<open>initSchema\<close>, rows in insertion order, and the AUTOINCREMENT
  counter of \<open>articles\<close>. The statements are modelled on a working connection: the
  errors they return here are the constraint violations the schema declares.
\<close>

record DB =
  feeds :: "Feed list"
  articles :: "Article list"
  user_interests :: "UserInterest list"
  read_articles :: "ReadArticle list"
  articles_seq :: int

text \<open>
  \<open>INSERT INTO articles ...\<close>: \<open>url\<close> is UNIQUE, \<open>feed_id\<close> references \<open>feeds(id)\<close>
  (foreign keys are switched on in \<open>New\<close>); the row gets the next id and
  \<open>fetched_at = time.Now()\<close>, and the id is written back to the caller's article.
\<close>

definition AddArticle :: "time \<Rightarrow> DB \<Rightarrow> Article \<Rightarrow> (Article \<times> error option) \<times> DB" where
  "AddArticle now db article =
     (if URL article \<in> set (map URL (articles db)) then
        ((article, Some (Wrap ''inserting article''
            (ConstraintFailed ''UNIQUE constraint failed: articles.url''))), db)
      else if FeedID article \<notin> set (map Feed_ID (feeds db)) then
        ((article, Some (Wrap ''inserting article''
            (ConstraintFailed ''FOREIGN KEY constraint failed''))), db)
      else
        (let id = articles_seq db + 1 in
         ((article\<lparr>ID := id\<rparr>, None),
          db\<lparr>articles := articles db @ [article\<lparr>ID := id, FetchedAt := now\<rparr>],
             articles_seq := id\<rparr>)))"

text \<open>
  The query of \<open>GetUnreadArticles\<close>, clause by clause:
  \<open>FROM articles a LEFT JOIN read_articles r ON a.id = r.article_id\<close>,
  \<open>WHERE r.article_id IS NULL AND a.published_at >= cutoff\<close>,
  \<open>ORDER BY a.relevance_score DESC, a.published_at DESC\<close>, \<open>SELECT a.*\<close>.
  It is given twice. First on instants: \<open>published_at\<close> and the cutoff compared as points
  in time, which is what the query's text asks for. Then, below, on what the driver
  stores and compares.
\<close>

definition left_join :: "Article list \<Rightarrow> ReadArticle list \<Rightarrow> (Article \<times> ReadArticle option) list" where
  "left_join as rs =
     concat (map (\<lambda>a. case filter (\<lambda>r. ID a = ArticleID r) rs of
                          [] \<Rightarrow> [(a, None)]
                        | ms \<Rightarrow> map (\<lambda>r. (a, Some r)) ms) as)"

definition unread_where :: "time \<Rightarrow> Article \<times> ReadArticle option \<Rightarrow> bool" where
  "unread_where cutoff row = (snd row = None \<and> PublishedAt (fst row) \<ge> cutoff)"

definition order_key :: "Article \<Rightarrow> real \<times> int" where
  "order_key a = (- RelevanceScore a, - PublishedAt a)"

definition GetUnreadArticles :: "time \<Rightarrow> DB \<Rightarrow> time \<Rightarrow> Article list" where
  "GetUnreadArticles now db maxAge =
     (let cutoff = now + wrap64 (- maxAge) in
      sort_key order_key
        (map fst (filter (unread_where cutoff) (left_join (articles db) (read_articles db)))))"

text \<open>
  The same query on the stored values. The connection is opened with
  \<open>sql.Open("sqlite", dbPath)\<close> and no time format, so the driver
  (\<open>modernc.org/sqlite\<close>) binds a \<open>time.Time\<close> argument as the text of \<open>t.String()\<close>: the
  column \<open>published_at\<close> holds text, the cutoff is bound as text, and SQLite compares and
  orders the two bytewise. \<open>rows.Scan\<close> has the driver parse the text of \<open>published_at\<close>
  and \<open>fetched_at\<close> back, and fails when it cannot. What the driver and \<open>time\<close>
  compute is a parameter: the text of the cutoff, the text each row holds in the two
  columns (\<open>String()\<close> of the \<open>time.Time\<close> bound at the insert, in that value's own zone),
  and the parser.
\<close>

record driver =
  time_text :: "time \<Rightarrow> string"
  published_at_column :: "Article \<Rightarrow> string"
  fetched_at_column :: "Article \<Rightarrow> string"
  parse_time :: "string \<Rightarrow> time option"

fun scan_rows :: "driver \<Rightarrow> Article list \<Rightarrow> Article list \<Rightarrow> Article list \<times> error option" where
  "scan_rows D [] scanned = (scanned, None)"
| "scan_rows D (row # rest) scanned =
     (case parse_time D (published_at_column D row) of
        None \<Rightarrow> ([], Some (Wrap ''scanning article'' ScanError))
      | Some publishedAt \<Rightarrow>
          (case parse_time D (fetched_at_column D row) of
             None \<Rightarrow> ([], Some (Wrap ''scanning article'' ScanError))
           | Some fetchedAt \<Rightarrow>
               scan_rows D rest
                 (scanned @ [row\<lparr>PublishedAt := publishedAt, FetchedAt := fetchedAt\<rparr>])))"

definition GetUnreadArticles_driver :: "driver \<Rightarrow> time \<Rightarrow> DB \<Rightarrow> time \<Rightarrow> Article list \<times> error option" where
  "GetUnreadArticles_driver D now db maxAge =
     (let cutoff = time_text D (now + wrap64 (- maxAge));
          rows = map fst
                   (filter (\<lambda>row. snd row = None \<and> cutoff \<le> published_at_column D (fst row))
                      (left_join (articles db) (read_articles db)))
      in scan_rows D
           (rev (sort_key (\<lambda>a. (RelevanceScore a, published_at_column D a)) rows)) [])"

text \<open>
  \<open>INSERT INTO read_articles (article_id, read_at) VALUES (?, ?)\<close>: \<open>article_id\<close> is the
  PRIMARY KEY and references \<open>articles(id)\<close>. The statement is a plain INSERT; a
  failure is wrapped and returned.
\<close>

definition MarkArticleRead :: "time \<Rightarrow> DB \<Rightarrow> int \<Rightarrow> error option \<times> DB" where
  "MarkArticleRead now db articleID =
     (if articleID \<in> set (map ArticleID (read_articles db)) then
        (Some (Wrap ''marking article as read''
           (ConstraintFailed ''UNIQUE constraint failed: read_articles.article_id'')), db)
      else if articleID \<notin> set (map ID (articles db)) then
        (Some (Wrap ''marking article as read''
           (ConstraintFailed ''FOREIGN KEY constraint failed'')), db)
      else
        (None, db\<lparr>read_articles :=
                    read_articles db @ [\<lparr>ArticleID = articleID, ReadAt = now\<rparr>]\<rparr>))"

text \<open>\<open>SELECT id, description, weight, embedding FROM user_interests\<close>; a NULL embedding
  leaves \<open>Embedding\<close> nil, the empty byte list.\<close>

definition GetInterests :: "DB \<Rightarrow> UserInterest list" where
  "GetInterests db = user_interests db"

text \<open>\<open>UPDATE articles SET relevance_score = ? WHERE id = ?\<close>\<close>

definition UpdateArticleRelevance :: "DB \<Rightarrow> int \<Rightarrow> real \<Rightarrow> DB" where
  "UpdateArticleRelevance db articleID score =
     db\<lparr>articles := map (\<lambda>a. if ID a = articleID then a\<lparr>RelevanceScore := score\<rparr> else a)
                         (articles db)\<rparr>"

section \<open>Ingestion (internal/feed)\<close>

definition convertToArticle :: "Item \<Rightarrow> int \<Rightarrow> Article option" where
  "convertToArticle item feedID =
     (case (case PublishedParsed item of
              Some t \<Rightarrow> Some t
            | None \<Rightarrow> (case UpdatedParsed item of Some t \<Rightarrow> Some t | None \<Rightarrow> None)) of
        None \<Rightarrow> None
      | Some publishedAt \<Rightarrow>
          (let content = (if Item_Content item \<noteq> [] then Item_Content item
                          else if Item_Description item \<noteq> [] then Item_Description item
                          else []);
               description =
                 (if Item_Description item = [] \<and> Item_Content item \<noteq> [] then
                    (if length (Item_Content item) > 500
                     then take 500 (Item_Content item) @ ''...''
                     else Item_Content item)
                  else Item_Description item)
           in Some \<lparr>ID = 0, FeedID = feedID, Title = Item_Title item, URL = Link item,
                     Content = content, Description = description,
                     PublishedAt = publishedAt, FetchedAt = 0, RelevanceScore = 0\<rparr>))"

text \<open>The loop of \<open>FetchAndStore\<close> over the parsed items: a \<open>nil\<close> article and a
  failed insert are both skipped.\<close>

fun store_items :: "time \<Rightarrow> int \<Rightarrow> Item list \<Rightarrow> DB \<times> nat \<Rightarrow> DB \<times> nat" where
  "store_items now feedID [] st = st"
| "store_items now feedID (item # rest) (db, newArticles) =
     (case convertToArticle item feedID of
        None \<Rightarrow> store_items now feedID rest (db, newArticles)
      | Some article \<Rightarrow>
          (case AddArticle now db article of
             ((_, Some err), db') \<Rightarrow> store_items now feedID rest (db', newArticles)
           | ((_, None), db') \<Rightarrow> store_items now feedID rest (db', newArticles + 1)))"

text \<open>\<open>parsed\<close> is what \<open>FetchFeed\<close> (the gofeed parser over HTTP) returned for the
  feed's URL.\<close>

definition FetchAndStore :: "(Item list \<times> error option) \<Rightarrow> time \<Rightarrow> Feed \<Rightarrow> DB \<Rightarrow> (nat \<times> error option) \<times> DB" where
  "FetchAndStore parsed now feed db =
     (case parsed of
        (_, Some err) \<Rightarrow> ((0, Some err), db)
      | (items, None) \<Rightarrow>
          (case store_items now (Feed_ID feed) items (db, 0) of
             (db', newArticles) \<Rightarrow> ((newArticles, None), db')))"

section \<open>Scoring (internal/ai)\<close>

text \<open>
  What the client cannot compute by itself is a parameter: the embedding endpoint
  (\<open>ollama\<close>: the texts requested so far and the text requested now give a vector, or
  \<open>None\<close> when the request fails), \<open>json.Unmarshal\<close> into a \<open>[]float64\<close> and
  \<open>json.Marshal\<close> of one. The list of requested texts is the state the scoring
  functions thread.
\<close>

record env =
  ollama :: "string list \<Rightarrow> string \<Rightarrow> real list option"
  json_Unmarshal :: "bytes \<Rightarrow> real list option"
  json_Marshal :: "real list \<Rightarrow> bytes"

definition GetEmbedding :: "env \<Rightarrow> string list \<Rightarrow> string \<Rightarrow> (real list \<times> error option) \<times> string list" where
  "GetEmbedding E reqs text =
     (case ollama E reqs text of
        None \<Rightarrow> (([], Some ProviderError), reqs @ [text])
      | Some v \<Rightarrow> ((v, None), reqs @ [text]))"

fun cosine_loop :: "real list \<Rightarrow> real list \<Rightarrow> real \<times> real \<times> real \<Rightarrow> real \<times> real \<times> real" where
  "cosine_loop (x # xs) (y # ys) (dotProduct, normA, normB) =
     cosine_loop xs ys (dotProduct + x * y, normA + x * x, normB + y * y)"
| "cosine_loop _ _ acc = acc"

definition CosineSimilarity :: "real list \<Rightarrow> real list \<Rightarrow> real" where
  "CosineSimilarity a b =
     (if length a \<noteq> length b then 0
      else (case cosine_loop a b (0, 0, 0) of
              (dotProduct, normA, normB) \<Rightarrow>
                if normA = 0 \<or> normB = 0 then 0
                else dotProduct / (sqrt normA * sqrt normB)))"

definition articleText :: "Article \<Rightarrow> string" where
  "articleText article = Title article @ ''. '' @ Description article"

record score_state =
  totalScore :: real
  totalWeight :: real
  calls :: "string list"

definition accumulate :: "real list \<Rightarrow> real list \<Rightarrow> UserInterest \<Rightarrow> score_state \<Rightarrow> score_state" where
  "accumulate articleEmb interestEmb interest st =
     (let similarity = CosineSimilarity articleEmb interestEmb in
      st\<lparr>totalScore := totalScore st + similarity * Weight interest,
         totalWeight := totalWeight st + Weight interest\<rparr>)"

text \<open>
  One iteration of the loop over the interests. The result is how the loop goes on
  (\<open>None\<close>: next interest, also after \<open>continue\<close>; \<open>Some err\<close>: \<open>return 0, err\<close>), the
  loop variable \<open>interest\<close> at the end of the iteration, and the totals.
\<close>

definition score_interest :: "env \<Rightarrow> real list \<Rightarrow> UserInterest \<Rightarrow> score_state \<Rightarrow> error option \<times> UserInterest \<times> score_state" where
  "score_interest E articleEmb interest st =
     (if length (Embedding interest) > 0 then
        (case json_Unmarshal E (Embedding interest) of
           None \<Rightarrow> (Some (Wrap ''unmarshaling interest embedding'' UnmarshalError), interest, st)
         | Some interestEmb \<Rightarrow> (None, interest, accumulate articleEmb interestEmb interest st))
      else
        (case GetEmbedding E (calls st) (Interest_Description interest) of
           ((_, Some err), reqs) \<Rightarrow> (None, interest, st\<lparr>calls := reqs\<rparr>)
         | ((interestEmb, None), reqs) \<Rightarrow>
             (None, interest\<lparr>Embedding := json_Marshal E interestEmb\<rparr>,
              accumulate articleEmb interestEmb interest (st\<lparr>calls := reqs\<rparr>))))"

text \<open>
  \<open>for _, interest := range interests\<close>: the loop variable is a copy of the slice
  element, so the value it holds at the end of an iteration is dropped; neither the
  slice nor the store is written.
\<close>

fun score_loop :: "env \<Rightarrow> real list \<Rightarrow> UserInterest list \<Rightarrow> score_state \<Rightarrow> error option \<times> score_state" where
  "score_loop E articleEmb [] st = (None, st)"
| "score_loop E articleEmb (interest # rest) st =
     (case score_interest E articleEmb interest st of
        (Some err, _, st') \<Rightarrow> (Some err, st')
      | (None, _, st') \<Rightarrow> score_loop E articleEmb rest st')"

definition ScoreArticle :: "env \<Rightarrow> string list \<Rightarrow> Article \<Rightarrow> UserInterest list \<Rightarrow> (real \<times> error option) \<times> string list" where
  "ScoreArticle E reqs article interests =
     (case GetEmbedding E reqs (articleText article) of
        ((_, Some err), reqs') \<Rightarrow> ((0, Some (Wrap ''getting article embedding'' err)), reqs')
      | ((articleEmb, None), reqs') \<Rightarrow>
          (case score_loop E articleEmb interests
                  \<lparr>totalScore = 0, totalWeight = 0, calls = reqs'\<rparr> of
             (Some err, st) \<Rightarrow> ((0, Some err), calls st)
           | (None, st) \<Rightarrow>
               (if totalWeight st = 0 then ((0, None), calls st)
                else ((totalScore st / totalWeight st, None), calls st))))"

text \<open>The loop of \<open>ScoreAllUnscored\<close> over the articles read before the loop.\<close>

fun score_articles :: "env \<Rightarrow> UserInterest list \<Rightarrow> Article list \<Rightarrow> DB \<times> string list \<times> nat \<Rightarrow> DB \<times> string list \<times> nat" where
  "score_articles E interests [] st = st"
| "score_articles E interests (article # rest) (db, reqs, scored) =
     (if RelevanceScore article > 0 then score_articles E interests rest (db, reqs, scored)
      else (case ScoreArticle E reqs article interests of
              ((_, Some err), reqs') \<Rightarrow> score_articles E interests rest (db, reqs', scored)
            | ((score, None), reqs') \<Rightarrow>
                score_articles E interests rest
                  (UpdateArticleRelevance db (ID article) score, reqs', scored + 1)))"

text \<open>\<open>time.Hour\<close> in nanoseconds. \<open>time.Duration(maxAgeDays) * 24 * time.Hour\<close> is a product
  of \<open>int64\<close> values and wraps around (beyond some 106751 days).\<close>

definition Hour :: int where
  "Hour = 3600000000000"

definition ScoreAllUnscored :: "env \<Rightarrow> time \<Rightarrow> int \<Rightarrow> DB \<times> string list \<Rightarrow> error option \<times> DB \<times> string list" where
  "ScoreAllUnscored E now maxAgeDays st =
     (case st of (db, reqs) \<Rightarrow>
        (let interests = GetInterests db in
         if length interests = 0 then (None, db, reqs)
         else
           (let maxAge = wrap64 (wrap64 (maxAgeDays * 24) * Hour);
                articles = GetUnreadArticles now db maxAge
            in case score_articles E interests articles (db, reqs, 0) of
                 (db', reqs', scored) \<Rightarrow> (None, db', reqs'))))"

section \<open>Cosine similarity in binary64\<close>

text \<open>
  \<open>CosineSimilarity\<close> once more, over an arithmetic: the operations of \<open>float64\<close> that
  the function uses. \<open>binary64\<close> is IEEE 754 double precision with round to nearest,
  ties to even, every operation rounded by itself, with gradual underflow, overflow
  to the infinities, and NaN; the two zeros are one value here (they compare equal,
  and the function divides only by a product of square roots of non-zero sums).
  \<open>exact\<close> is the arithmetic of the real numbers, in which \<open>CosineSimilarity_on\<close> is the
  function \<open>CosineSimilarity\<close> above.
\<close>

datatype float64 = Finite real | PosInf | NegInf | NaN

definition pow2 :: "int \<Rightarrow> real" where
  "pow2 k = (if 0 \<le> k then 2 ^ nat k else 1 / 2 ^ nat (- k))"

definition round_even :: "real \<Rightarrow> int" where
  "round_even x =
     (let f = \<lfloor>x\<rfloor>; d = x - of_int f
      in if d < 1 / 2 then f else if 1 / 2 < d then f + 1 else if even f then f else f + 1)"

definition infinity :: "bool \<Rightarrow> float64" where
  "infinity positive = (if positive then PosInf else NegInf)"

definition round64 :: "real \<Rightarrow> float64" where
  "round64 x =
     (if x = 0 then Finite 0
      else
        (let e = max \<lfloor>log 2 \<bar>x\<bar>\<rfloor> (- 1022);
             u = pow2 (e - 52);
             y = of_int (round_even (x / u)) * u
         in if pow2 1024 \<le> \<bar>y\<bar> then infinity (0 < x) else Finite y))"

fun fadd :: "float64 \<Rightarrow> float64 \<Rightarrow> float64" where
  "fadd (Finite x) (Finite y) = round64 (x + y)"
| "fadd NaN _ = NaN"
| "fadd _ NaN = NaN"
| "fadd PosInf NegInf = NaN"
| "fadd NegInf PosInf = NaN"
| "fadd PosInf _ = PosInf"
| "fadd _ PosInf = PosInf"
| "fadd NegInf _ = NegInf"
| "fadd _ NegInf = NegInf"

fun fmul :: "float64 \<Rightarrow> float64 \<Rightarrow> float64" where
  "fmul (Finite x) (Finite y) = round64 (x * y)"
| "fmul NaN _ = NaN"
| "fmul _ NaN = NaN"
| "fmul (Finite x) PosInf = (if x = 0 then NaN else infinity (0 < x))"
| "fmul (Finite x) NegInf = (if x = 0 then NaN else infinity (x < 0))"
| "fmul PosInf (Finite y) = (if y = 0 then NaN else infinity (0 < y))"
| "fmul NegInf (Finite y) = (if y = 0 then NaN else infinity (y < 0))"
| "fmul PosInf PosInf = PosInf"
| "fmul PosInf NegInf = NegInf"
| "fmul NegInf PosInf = NegInf"
| "fmul NegInf NegInf = PosInf"

fun fdiv :: "float64 \<Rightarrow> float64 \<Rightarrow> float64" where
  "fdiv (Finite x) (Finite y) =
     (if y = 0 then (if x = 0 then NaN else infinity (0 < x)) else round64 (x / y))"
| "fdiv NaN _ = NaN"
| "fdiv _ NaN = NaN"
| "fdiv (Finite x) _ = Finite 0"
| "fdiv PosInf (Finite y) = infinity (0 \<le> y)"
| "fdiv NegInf (Finite y) = infinity (y < 0)"
| "fdiv _ _ = NaN"

fun fsqrt :: "float64 \<Rightarrow> float64" where
  "fsqrt (Finite x) = (if x < 0 then NaN else round64 (sqrt x))"
| "fsqrt PosInf = PosInf"
| "fsqrt _ = NaN"

record 'f arithmetic =
  Zero :: 'f
  Add :: "'f \<Rightarrow> 'f \<Rightarrow> 'f"
  Mul :: "'f \<Rightarrow> 'f \<Rightarrow> 'f"
  Div :: "'f \<Rightarrow> 'f \<Rightarrow> 'f"
  Sqrt :: "'f \<Rightarrow> 'f"
  IsZero :: "'f \<Rightarrow> bool"

definition binary64 :: "float64 arithmetic" where
  "binary64 = \<lparr>Zero = Finite 0, Add = fadd, Mul = fmul, Div = fdiv, Sqrt = fsqrt,
                 IsZero = (\<lambda>x. x = Finite 0)\<rparr>"

definition exact :: "real arithmetic" where
  "exact = \<lparr>Zero = 0, Add = (+), Mul = (*), Div = (/), Sqrt = sqrt, IsZero = (\<lambda>x. x = 0)\<rparr>"

fun cosine_loop_on :: "'f arithmetic \<Rightarrow> 'f list \<Rightarrow> 'f list \<Rightarrow> 'f \<times> 'f \<times> 'f \<Rightarrow> 'f \<times> 'f \<times> 'f" where
  "cosine_loop_on A (x # xs) (y # ys) (dotProduct, normA, normB) =
     cosine_loop_on A xs ys
       (Add A dotProduct (Mul A x y), Add A normA (Mul A x x), Add A normB (Mul A y y))"
| "cosine_loop_on A _ _ acc = acc"

definition CosineSimilarity_on :: "'f arithmetic \<Rightarrow> 'f list \<Rightarrow> 'f list \<Rightarrow> 'f" where
  "CosineSimilarity_on A a b =
     (if length a \<noteq> length b then Zero A
      else (case cosine_loop_on A a b (Zero A, Zero A, Zero A) of
              (dotProduct, normA, normB) \<Rightarrow>
                if IsZero A normA \<or> IsZero A normB then Zero A
                else Div A dotProduct (Mul A (Sqrt A normA) (Sqrt A normB))))"

section \<open>Definitions following the specification\<close>

text \<open>The cosine of two vectors as the specification means it: the dot product over the
  product of the Euclidean norms.\<close>

definition dot :: "real list \<Rightarrow> real list \<Rightarrow> real" where
  "dot a b = (\<Sum>i<length a. a ! i * b ! i)"

definition cosine :: "real list \<Rightarrow> real list \<Rightarrow> real" where
  "cosine a b = dot a b / (sqrt (dot a a) * sqrt (dot b b))"

text \<open>The interests that yield an embedding for one call of \<open>ScoreArticle\<close>, in order,
  each with the vector it yielded and its weight; and the weighted average of the
  specification over them.\<close>

fun usable_embeddings :: "env \<Rightarrow> string list \<Rightarrow> UserInterest list \<Rightarrow> (real list \<times> real) list" where
  "usable_embeddings E reqs [] = []"
| "usable_embeddings E reqs (interest # rest) =
     (if Embedding interest \<noteq> [] then
        (case json_Unmarshal E (Embedding interest) of
           Some v \<Rightarrow> (v, Weight interest) # usable_embeddings E reqs rest
         | None \<Rightarrow> usable_embeddings E reqs rest)
      else
        (case ollama E reqs (Interest_Description interest) of
           Some v \<Rightarrow> (v, Weight interest)
                       # usable_embeddings E (reqs @ [Interest_Description interest]) rest
         | None \<Rightarrow> usable_embeddings E (reqs @ [Interest_Description interest]) rest))"

definition weighted_average :: "real list \<Rightarrow> (real list \<times> real) list \<Rightarrow> real" where
  "weighted_average articleVec us =
     (if (\<Sum>(v, w)\<leftarrow>us. w) = 0 then 0
      else (\<Sum>(v, w)\<leftarrow>us. CosineSimilarity articleVec v * w) / (\<Sum>(v, w)\<leftarrow>us. w))"

text \<open>The range the specification gives for a similarity, on \<open>float64\<close> values.\<close>

definition in_unit_range :: "float64 \<Rightarrow> bool" where
  "in_unit_range v = (case v of Finite r \<Rightarrow> - 1 \<le> r \<and> r \<le> 1 | _ \<Rightarrow> False)"

text \<open>The characters of a UTF-8 text: every byte but the continuation bytes starts one.
  A text of single-byte characters has as many characters as bytes.\<close>

definition continuation_byte :: "char \<Rightarrow> bool" where
  "continuation_byte c = (128 \<le> (of_char c :: nat) \<and> (of_char c :: nat) < 192)"

definition characters :: "string \<Rightarrow> nat" where
  "characters s = length (filter (\<lambda>c. \<not> continuation_byte c) s)"

definition single_byte :: "string \<Rightarrow> bool" where
  "single_byte s = (\<forall>c\<in>set s. (of_char c :: nat) < 128)"

section \<open>Example inputs\<close>

definition example_feed :: Feed where
  "example_feed = \<lparr>Feed_ID = 1, Feed_URL = ''https://example.org/feed'', Feed_Name = ''example'',
                    Feed_Enabled = True, Feed_CreatedAt = 0\<rparr>"

definition example_article :: "int \<Rightarrow> string \<Rightarrow> time \<Rightarrow> real \<Rightarrow> Article" where
  "example_article i u t s =
     \<lparr>ID = i, FeedID = 1, Title = ''T'', URL = u, Content = ''B'', Description = ''d'',
      PublishedAt = t, FetchedAt = 0, RelevanceScore = s\<rparr>"

definition example_db :: DB where
  "example_db =
     \<lparr>feeds = [example_feed],
      articles = [example_article 1 ''u1'' 10 (9 / 10), example_article 2 ''u2'' 20 (9 / 10),
                  example_article 3 ''u3'' 30 (2 / 10), example_article 4 ''u4'' 40 1,
                  example_article 5 ''u5'' (- 100) 1],
      user_interests = [],
      read_articles = [\<lparr>ArticleID = 4, ReadAt = 45\<rparr>],
      articles_seq = 5\<rparr>"

definition item_published :: Item where
  "item_published = \<lparr>Item_Title = ''P'', Link = ''p'', Item_Content = ''body'',
     Item_Description = ''summary'', PublishedParsed = Some 5, UpdatedParsed = Some 7\<rparr>"

definition item_updated :: Item where
  "item_updated = \<lparr>Item_Title = ''Q'', Link = ''q'', Item_Content = ''abc'',
     Item_Description = [], PublishedParsed = None, UpdatedParsed = Some 7\<rparr>"

definition item_undated :: Item where
  "item_undated = \<lparr>Item_Title = ''R'', Link = ''r'', Item_Content = ''body'',
     Item_Description = ''summary'', PublishedParsed = None, UpdatedParsed = None\<rparr>"

definition item_long :: Item where
  "item_long = \<lparr>Item_Title = ''L'', Link = ''l'', Item_Content = replicate 501 (CHR ''a''),
     Item_Description = [], PublishedParsed = Some 5, UpdatedParsed = None\<rparr>"

definition article_without_description :: Article where
  "article_without_description = (example_article 1 ''u1'' 10 0)\<lparr>Description := []\<rparr>"

definition example_env :: env where
  "example_env =
     \<lparr>ollama = (\<lambda>reqs text. if text = ''fail'' then None else Some [1, 0]),
      json_Unmarshal = (\<lambda>b. if b = ''[1,0]'' then Some [1, 0]
                             else if b = ''[0,1]'' then Some [0, 1]
                             else if b = ''[-1,0]'' then Some [- 1, 0]
                             else None),
      json_Marshal = (\<lambda>v. if v = [1, 0] then ''[1,0]''
                           else if v = [0, 1] then ''[0,1]''
                           else if v = [- 1, 0] then ''[-1,0]''
                           else ''null'')\<rparr>"

definition example_interest :: "int \<Rightarrow> string \<Rightarrow> real \<Rightarrow> bytes \<Rightarrow> UserInterest" where
  "example_interest i d w e =
     \<lparr>Interest_ID = i, Interest_Description = d, Weight = w, Embedding = e\<rparr>"

definition db_negative :: DB where
  "db_negative =
     \<lparr>feeds = [example_feed],
      articles = [example_article 1 ''u1'' 10 0],
      user_interests = [example_interest 1 ''opposite'' 1 ''[-1,0]''],
      read_articles = [],
      articles_seq = 1\<rparr>"

definition db_uncached :: DB where
  "db_uncached =
     \<lparr>feeds = [example_feed],
      articles = [example_article 1 ''u1'' 10 0],
      user_interests = [example_interest 1 ''go'' 1 []],
      read_articles = [],
      articles_seq = 1\<rparr>"

definition new_article :: Article where
  "new_article = (example_article 0 ''u2'' 20 0)\<lparr>Title := ''U''\<rparr>"

text \<open>
  A process in the zone \<open>PST\<close> (UTC-8) at 2024-02-10 12:00:00.5 UTC, half a second after its
  start, asking for the last 24 hours, and one row whose \<open>published_at\<close> was bound from
  a UTC \<open>time.Time\<close> of 2024-02-09 06:00:00 UTC, thirty hours earlier.
\<close>

definition pacific_driver :: driver where
  "pacific_driver =
     \<lparr>time_text = (\<lambda>t. if t = 1707480000500000000
                         then ''2024-02-09 04:00:00.5 -0800 PST m=-86399.500000000'' else []),
      published_at_column = (\<lambda>a. if ID a = 1 then ''2024-02-09 06:00:00 +0000 UTC'' else []),
      fetched_at_column =
        (\<lambda>a. if ID a = 1 then ''2024-02-08 23:00:00.25 -0800 PST m=+1.250000000'' else []),
      parse_time = (\<lambda>s. if s = ''2024-02-09 06:00:00 +0000 UTC'' then Some 1707458400000000000
                          else if s = ''2024-02-08 23:00:00.25 -0800 PST m=+1.250000000''
                               then Some 1707462000250000000
                          else None)\<rparr>"

definition stale_article :: Article where
  "stale_article =
     (example_article 1 ''u1'' 1707458400000000000 0)\<lparr>FetchedAt := 1707462000250000000\<rparr>"

definition db_stale :: DB where
  "db_stale =
     \<lparr>feeds = [example_feed], articles = [stale_article], user_interests = [],
      read_articles = [], articles_seq = 1\<rparr>"

section \<open>Cosine similarity\<close>

lemma cosine_loop_sums:
  "length a = length b \<Longrightarrow>
   cosine_loop a b (d, na, nb) =
     (d + sum_list (map2 (*) a b), na + sum_list (map (\<lambda>x. x * x) a),
      nb + sum_list (map (\<lambda>y. y * y) b))"
proof (induction a b "(d, na, nb)" arbitrary: d na nb rule: cosine_loop.induct)
  case (1 x xs y ys dotProduct normA normB)
  then show ?case by (simp add: algebra_simps)
qed simp_all

lemma cs_step:
  fixes d na nb x y :: real
  assumes "d * d \<le> na * nb" "0 \<le> na" "0 \<le> nb"
  shows "(d + x * y) * (d + x * y) \<le> (na + x * x) * (nb + y * y)"
proof -
  have d_le: "\<bar>d\<bar> \<le> sqrt na * sqrt nb"
  proof -
    have "\<bar>d\<bar> = sqrt (d * d)" by simp
    also have "\<dots> \<le> sqrt (na * nb)" using assms(1) by (rule real_sqrt_le_mono)
    also have "\<dots> = sqrt na * sqrt nb" by (rule real_sqrt_mult)
    finally show ?thesis .
  qed
  have sq: "0 \<le> (sqrt na * \<bar>y\<bar> - sqrt nb * \<bar>x\<bar>)\<^sup>2" by simp
  have na: "sqrt na * sqrt na = na" and nb: "sqrt nb * sqrt nb = nb"
    using assms(2,3) by simp_all
  have amgm: "2 * (sqrt na * sqrt nb) * (\<bar>x\<bar> * \<bar>y\<bar>) \<le> na * (y * y) + nb * (x * x)"
  proof -
    have "(sqrt na * \<bar>y\<bar> - sqrt nb * \<bar>x\<bar>)\<^sup>2 =
          (sqrt na * sqrt na) * (\<bar>y\<bar> * \<bar>y\<bar>) + (sqrt nb * sqrt nb) * (\<bar>x\<bar> * \<bar>x\<bar>)
          - 2 * (sqrt na * sqrt nb) * (\<bar>x\<bar> * \<bar>y\<bar>)"
      by (simp add: power2_eq_square algebra_simps)
    with sq show ?thesis using assms(2,3) by simp
  qed
  have "d * (x * y) \<le> \<bar>d\<bar> * (\<bar>x\<bar> * \<bar>y\<bar>)"
    by (metis abs_ge_self abs_mult)
  also have "\<dots> \<le> (sqrt na * sqrt nb) * (\<bar>x\<bar> * \<bar>y\<bar>)"
    using d_le by (intro mult_right_mono) simp_all
  finally have "2 * (d * (x * y)) \<le> na * (y * y) + nb * (x * x)"
    using amgm by simp
  with assms(1) show ?thesis by (simp add: algebra_simps)
qed

lemma cosine_loop_inv:
  "cosine_loop a b (d, na, nb) = (d', na', nb') \<Longrightarrow> d * d \<le> na * nb \<Longrightarrow> 0 \<le> na \<Longrightarrow> 0 \<le> nb
   \<Longrightarrow> d' * d' \<le> na' * nb' \<and> 0 \<le> na' \<and> 0 \<le> nb'"
proof (induction a b "(d, na, nb)" arbitrary: d na nb rule: cosine_loop.induct)
  case (1 x xs y ys dotProduct normA normB)
  show ?case
  proof (rule "1.hyps")
    show "cosine_loop xs ys (dotProduct + x * y, normA + x * x, normB + y * y) = (d', na', nb')"
      using "1.prems"(1) by simp
    show "(dotProduct + x * y) * (dotProduct + x * y) \<le> (normA + x * x) * (normB + y * y)"
      using "1.prems" by (intro cs_step)
    show "0 \<le> normA + x * x" using "1.prems" by simp
    show "0 \<le> normB + y * y" using "1.prems" by simp
  qed
qed simp_all

lemma quotient_bound:
  fixes d na nb :: real
  assumes "d * d \<le> na * nb" "0 \<le> na" "0 \<le> nb" "na \<noteq> 0" "nb \<noteq> 0"
  shows "\<bar>d / (sqrt na * sqrt nb)\<bar> \<le> 1"
proof -
  have pos: "0 < sqrt na * sqrt nb" using assms by simp
  have "\<bar>d\<bar> = sqrt (d * d)" by simp
  also have "\<dots> \<le> sqrt (na * nb)" using assms(1) by (rule real_sqrt_le_mono)
  also have "\<dots> = sqrt na * sqrt nb" by (rule real_sqrt_mult)
  finally have "\<bar>d\<bar> \<le> sqrt na * sqrt nb" .
  then show ?thesis using pos by simp
qed

lemma CosineSimilarity_bounds: "\<bar>CosineSimilarity a b\<bar> \<le> 1"
proof (cases "length a = length b")
  case False
  then show ?thesis by (simp add: CosineSimilarity_def)
next
  case True
  obtain d na nb where l: "cosine_loop a b (0, 0, 0) = (d, na, nb)"
    by (metis prod_cases3)
  from cosine_loop_inv [OF l] have inv: "d * d \<le> na * nb" "0 \<le> na" "0 \<le> nb" by simp_all
  show ?thesis
  proof (cases "na = 0 \<or> nb = 0")
    case True
    then show ?thesis using l by (simp add: CosineSimilarity_def)
  next
    case False
    then have "\<bar>d / (sqrt na * sqrt nb)\<bar> \<le> 1" using inv by (intro quotient_bound) simp_all
    then show ?thesis using l False \<open>length a = length b\<close> by (simp add: CosineSimilarity_def)
  qed
qed

lemma sum_list_map2_dot: "length a = length b \<Longrightarrow> sum_list (map2 (*) a b) = dot a b"
  by (simp add: sum_list_sum_nth dot_def atLeast0LessThan)

lemma sum_list_sq_dot: "sum_list (map (\<lambda>x. x * x) a) = dot a a"
  by (simp add: sum_list_sum_nth dot_def atLeast0LessThan)

lemma CosineSimilarity_eq:
  "length a = length b \<Longrightarrow>
   CosineSimilarity a b = (if dot a a = 0 \<or> dot b b = 0 then 0 else cosine a b)"
  by (simp add: CosineSimilarity_def cosine_loop_sums sum_list_map2_dot sum_list_sq_dot cosine_def)

lemma pow2_powr: "pow2 k = 2 powr (of_int k)"
  by (simp add: pow2_def powr_realpow [symmetric] powr_minus divide_inverse)

lemma pow2_pos: "0 < pow2 k"
  by (simp add: pow2_powr)

lemma floor_log2:
  assumes "pow2 e \<le> x" "x < pow2 (e + 1)"
  shows "\<lfloor>log 2 x\<rfloor> = e"
proof -
  have x: "0 < x" using assms(1) pow2_pos [of e] by linarith
  have "of_int e \<le> log 2 x"
    using assms(1) x by (simp add: pow2_powr le_log_iff)
  moreover have "log 2 x < of_int e + 1"
    using assms(2) x by (simp add: pow2_powr log_less_iff)
  ultimately show ?thesis by (simp add: floor_eq_iff)
qed

lemma round_even_near:
  assumes "\<bar>x - of_int m\<bar> < 1 / 2"
  shows "round_even x = m"
proof -
  consider "of_int m \<le> x" | "x < of_int m" by linarith
  then show ?thesis
  proof cases
    case 1
    then have f: "\<lfloor>x\<rfloor> = m" using assms by (auto simp: floor_eq_iff)
    then show ?thesis using assms 1 by (simp add: round_even_def Let_def)
  next
    case 2
    then have f: "\<lfloor>x\<rfloor> = m - 1" using assms by (auto simp: floor_eq_iff)
    then show ?thesis using assms 2 by (simp add: round_even_def Let_def)
  qed
qed

lemma round64_scaled:
  assumes "pow2 (k + 52) \<le> \<bar>x\<bar>" "\<bar>x\<bar> < pow2 (k + 53)" "- 1074 \<le> k"
    and "\<bar>x / pow2 k - of_int m\<bar> < 1 / 2"
  shows "round64 x = (if pow2 1024 \<le> \<bar>of_int m * pow2 k\<bar> then infinity (0 < x)
                      else Finite (of_int m * pow2 k))"
proof -
  have nz: "x \<noteq> 0" using assms(1) pow2_pos [of "k + 52"] by auto
  have "\<lfloor>log 2 \<bar>x\<bar>\<rfloor> = k + 52"
    using assms(1,2) by (intro floor_log2) (simp_all add: add.commute add.left_commute)
  then have e: "max \<lfloor>log 2 \<bar>x\<bar>\<rfloor> (- 1022) - 52 = k" using assms(3) by simp
  have r: "round_even (x / pow2 k) = m" using assms(4) by (rule round_even_near)
  show ?thesis using nz by (simp add: round64_def Let_def e r)
qed

lemma round64_near:
  assumes "pow2 (k + 52) \<le> \<bar>x\<bar>" "\<bar>x\<bar> < pow2 (k + 53)" "- 1074 \<le> k"
    and "\<bar>x / pow2 k - of_int m\<bar> < 1 / 2"
    and "\<bar>of_int m * pow2 k\<bar> < pow2 1024"
  shows "round64 x = Finite (of_int m * pow2 k)"
  using round64_scaled [OF assms(1-4)] assms(5) by simp

lemma round64_underflow:
  assumes "\<bar>x\<bar> < pow2 (- 1075)"
  shows "round64 x = Finite 0"
proof (cases "x = 0")
  case True
  then show ?thesis by (simp add: round64_def)
next
  case False
  then have pos: "0 < \<bar>x\<bar>" by simp
  have "log 2 \<bar>x\<bar> < - 1075"
    using assms pos by (simp add: pow2_powr log_less_iff)
  then have "\<lfloor>log 2 \<bar>x\<bar>\<rfloor> \<le> - 1022" by (simp add: floor_le_iff)
  then have e: "max \<lfloor>log 2 \<bar>x\<bar>\<rfloor> (- 1022) - 52 = - 1074" by simp
  have half: "pow2 (- 1075) = pow2 (- 1074) / 2" by (simp add: pow2_def)
  have "\<bar>x / pow2 (- 1074) - of_int 0\<bar> < 1 / 2"
    using assms pow2_pos [of "- 1074"] by (simp add: half field_simps)
  then have r: "round_even (x / pow2 (- 1074)) = 0" by (rule round_even_near)
  show ?thesis using False pow2_pos [of 1024] by (simp add: round64_def Let_def e r)
qed

lemma round64_int:
  "round64 1 = Finite 1" "round64 25 = Finite 25" "round64 26 = Finite 26"
proof -
  show "round64 1 = Finite 1"
    using round64_near [of "- 52" 1 4503599627370496] by (simp add: pow2_def)
  show "round64 25 = Finite 25"
    using round64_near [of "- 48" 25 7036874417766400] by (simp add: pow2_def)
  show "round64 26 = Finite 26"
    using round64_near [of "- 48" 26 7318349394477056] by (simp add: pow2_def)
qed

lemma sqrt26_bounds:
  "5740985595342838 - 1 / 2 < sqrt 26 * 2 ^ 50" "sqrt 26 * 2 ^ 50 < 5740985595342838 + 1 / 2"
proof -
  have "(5740985595342838 - 1 / 2) / 2 ^ 50 < sqrt 26"
    by (rule real_less_rsqrt) (simp add: power2_eq_square)
  then show "5740985595342838 - 1 / 2 < sqrt 26 * 2 ^ 50" by (simp add: field_simps)
  have "sqrt 26 < (5740985595342838 + 1 / 2) / 2 ^ 50"
    by (rule real_less_lsqrt) (simp_all add: power2_eq_square)
  then show "sqrt 26 * 2 ^ 50 < 5740985595342838 + 1 / 2" by (simp add: field_simps)
qed

lemma cosine_loop_exact: "cosine_loop_on exact a b acc = cosine_loop a b acc"
  by (induction a b acc rule: cosine_loop.induct) (simp_all add: exact_def)

lemma CosineSimilarity_exact: "CosineSimilarity_on exact a b = CosineSimilarity a b"
proof -
  have sel: "Zero exact = 0" "Div exact = (/)" "Mul exact = (*)" "Sqrt exact = sqrt"
    "IsZero exact = (\<lambda>x. x = 0)"
    by (simp_all add: exact_def)
  show ?thesis
    by (simp add: CosineSimilarity_on_def CosineSimilarity_def cosine_loop_exact sel
        split: prod.splits)
qed

lemma CosineSimilarity_on_mismatch:
  "length a \<noteq> length b \<Longrightarrow> CosineSimilarity_on A a b = Zero A"
  by (simp add: CosineSimilarity_on_def)

lemma CosineSimilarity_on_empty:
  "IsZero A (Zero A) \<Longrightarrow> a = [] \<or> b = [] \<Longrightarrow> CosineSimilarity_on A a b = Zero A"
  by (cases "length a = length b") (auto simp: CosineSimilarity_on_def)

text \<open>
  Claim C7, as amended. \<open>CosineSimilarity\<close> returns 0 (a value, not an error) when the two
  vectors differ in length and when either is empty. Otherwise it evaluates the dot
  product over the product of the square roots of the two sums of squares in \<open>float64\<close>:
  in exact arithmetic that value is the cosine of the two vectors (for vectors of
  non-zero norm) and lies in \<open>[-1, 1]\<close>; the value returned in binary64 is that up to
  rounding and is not confined to \<open>[-1, 1]\<close>.
\<close>

theorem CosineSimilarity_float64:
  "(length a \<noteq> length b \<longrightarrow> CosineSimilarity_on binary64 a b = Finite 0) \<and>
   (a = [] \<or> b = [] \<longrightarrow> CosineSimilarity_on binary64 a b = Finite 0) \<and>
   (length x = length y \<and> dot x x \<noteq> 0 \<and> dot y y \<noteq> 0 \<longrightarrow>
      CosineSimilarity_on exact x y = cosine x y) \<and>
   - 1 \<le> CosineSimilarity_on exact x y \<and> CosineSimilarity_on exact x y \<le> 1"
proof -
  have z: "Zero binary64 = Finite 0" "IsZero binary64 (Zero binary64)"
    by (simp_all add: binary64_def)
  have 1: "length a \<noteq> length b \<Longrightarrow> CosineSimilarity_on binary64 a b = Finite 0"
    using CosineSimilarity_on_mismatch [of a b binary64] z by simp
  have 2: "a = [] \<or> b = [] \<Longrightarrow> CosineSimilarity_on binary64 a b = Finite 0"
    using CosineSimilarity_on_empty [of binary64 a b] z by simp
  have 3: "length x = length y \<and> dot x x \<noteq> 0 \<and> dot y y \<noteq> 0 \<Longrightarrow>
      CosineSimilarity_on exact x y = cosine x y"
    by (simp add: CosineSimilarity_exact CosineSimilarity_eq)
  have "\<bar>CosineSimilarity_on exact x y\<bar> \<le> 1"
    by (simp add: CosineSimilarity_exact CosineSimilarity_bounds)
  then have 4: "- 1 \<le> CosineSimilarity_on exact x y \<and> CosineSimilarity_on exact x y \<le> 1"
    by (simp add: abs_le_iff)
  from 1 2 3 4 show ?thesis by blast
qed

theorem CosineSimilarity_float64_witness:
  "length [Finite 1, Finite 2, Finite 3] \<noteq> length [Finite 1, Finite 2, Finite 3, Finite 4, Finite 5] \<and>
   CosineSimilarity_on binary64 [Finite 1, Finite 2, Finite 3]
     [Finite 1, Finite 2, Finite 3, Finite 4, Finite 5] = Finite 0 \<and>
   CosineSimilarity_on binary64 [] [] = Finite 0 \<and>
   length [3, 4 :: real] = length [4, 3 :: real] \<and> dot [3, 4] [3, 4] \<noteq> 0 \<and> dot [4, 3] [4, 3] \<noteq> 0 \<and>
   CosineSimilarity_on exact [3, 4] [4, 3] = cosine [3, 4] [4, 3] \<and>
   cosine [3, 4] [4, 3] = 24 / 25 \<and>
   - 1 \<le> CosineSimilarity_on exact [3, 4] [4, 3] \<and> CosineSimilarity_on exact [3, 4] [4, 3] \<le> 1"
proof -
  have d: "dot [3, 4] [3, 4] = 25" "dot [4, 3] [4, 3] = 25" "dot [3, 4] [4, 3] = 24"
    by (simp_all add: dot_def lessThan_Suc numeral_2_eq_2)
  have s: "sqrt 25 = 5" by (rule real_sqrt_unique) simp_all
  have c: "cosine [3, 4] [4, 3] = 24 / 25" by (simp add: cosine_def d s)
  show ?thesis
    using CosineSimilarity_float64 [of "[Finite 1, Finite 2, Finite 3]"
        "[Finite 1, Finite 2, Finite 3, Finite 4, Finite 5]" "[3, 4]" "[4, 3]"]
      CosineSimilarity_float64 [of "[]" "[]" "[3, 4]" "[4, 3]"]
    by (simp add: d c)
qed

text \<open>In binary64 the vector \<open>[1, 5]\<close> with itself gives \<open>1 + 2\<^sup>-\<^sup>5\<^sup>2\<close>
  (1.0000000000000002): the root of 26 rounds down, its square rounds to the double
  below 26, and 26 over that rounds up.\<close>

theorem CosineSimilarity_exceeds_one:
  "\<not> in_unit_range (CosineSimilarity_on binary64 [Finite 1, Finite 5] [Finite 1, Finite 5])"
proof -
  define s :: real where "s = 5740985595342838 / 2 ^ 50"
  define p :: real where "p = 7318349394477055 / 2 ^ 48"
  have root: "round64 (sqrt 26) = Finite s"
  proof -
    have "round64 (sqrt 26) = Finite (of_int 5740985595342838 * pow2 (- 50))"
    proof (rule round64_near)
      show "pow2 (- 50 + 52) \<le> \<bar>sqrt 26\<bar>" using sqrt26_bounds(1) by (simp add: pow2_def)
      show "\<bar>sqrt 26\<bar> < pow2 (- 50 + 53)" using sqrt26_bounds(2) by (simp add: pow2_def)
      show "- 1074 \<le> (- 50 :: int)" by simp
      have "\<bar>sqrt 26 * 2 ^ 50 - 5740985595342838\<bar> < 1 / 2"
        using sqrt26_bounds unfolding abs_less_iff by linarith
      then show "\<bar>sqrt 26 / pow2 (- 50) - of_int 5740985595342838\<bar> < 1 / 2"
        by (simp add: pow2_def)
      show "\<bar>of_int 5740985595342838 * pow2 (- 50)\<bar> < pow2 1024"
        by (simp add: pow2_def)
    qed
    then show ?thesis by (simp add: pow2_def s_def)
  qed
  have square: "round64 (s * s) = Finite p"
    using round64_near [of "- 48" "s * s" 7318349394477055]
    by (simp add: pow2_def abs_less_iff s_def p_def)
  have quotient: "round64 (26 / p) = Finite (1 + 1 / 2 ^ 52)"
    using round64_near [of "- 52" "26 / p" 4503599627370497]
    by (simp add: pow2_def abs_less_iff p_def)
  have p: "p \<noteq> 0" by (simp add: p_def)
  have "CosineSimilarity_on binary64 [Finite 1, Finite 5] [Finite 1, Finite 5]
      = Finite (1 + 1 / 2 ^ 52)"
    by (simp add: CosineSimilarity_on_def binary64_def round64_int root square quotient p)
  then show ?thesis by (simp add: in_unit_range_def)
qed

text \<open>Sums of squares that overflow give NaN; sums that underflow give 0.\<close>

lemma CosineSimilarity_overflow:
  "CosineSimilarity_on binary64 [Finite (2 ^ 600)] [Finite (2 ^ 600)] = NaN"
proof -
  have "round64 (2 ^ 600 * 2 ^ 600) = PosInf"
    using round64_scaled [of 1148 "2 ^ 600 * 2 ^ 600" 4503599627370496]
    by (simp add: pow2_def infinity_def)
  then show ?thesis
    by (simp add: CosineSimilarity_on_def binary64_def)
qed

lemma CosineSimilarity_underflow:
  "CosineSimilarity_on binary64 [Finite (1 / 2 ^ 600)] [Finite (1 / 2 ^ 600)] = Finite 0"
proof -
  have "round64 (1 / 2 ^ 600 * (1 / 2 ^ 600)) = Finite 0"
    by (rule round64_underflow) (simp add: pow2_def)
  moreover have "round64 0 = Finite 0" by (simp add: round64_def)
  ultimately show ?thesis
    by (simp add: CosineSimilarity_on_def binary64_def)
qed

section \<open>The unread working set\<close>

text \<open>A row whose \<open>published_at\<close> or \<open>fetched_at\<close> text the driver cannot parse makes the
  whole call fail.\<close>

lemma scan_rows_fails:
  assumes "\<exists>row\<in>set rows. parse_time D (published_at_column D row) = None \<or>
                        parse_time D (fetched_at_column D row) = None"
  shows "scan_rows D rows scanned = ([], Some (Wrap ''scanning article'' ScanError))"
  using assms
proof (induction rows arbitrary: scanned)
  case Nil
  then show ?case by simp
next
  case (Cons row rest)
  show ?case
  proof (cases "parse_time D (published_at_column D row) = None \<or>
                parse_time D (fetched_at_column D row) = None")
    case True
    then show ?thesis by (auto split: option.splits)
  next
    case False
    with Cons.prems have "\<exists>row\<in>set rest. parse_time D (published_at_column D row) = None \<or>
                        parse_time D (fetched_at_column D row) = None"
      by auto
    from Cons.IH [OF this] False show ?thesis by (auto split: option.splits)
  qed
qed

text \<open>
  Claim C1 (the code departs from it). The cutoff and \<open>published_at\<close> are compared as the
  texts the driver stores, not as instants: in a process whose zone is UTC-8, an
  article published thirty hours ago and stored from a UTC timestamp is returned for a
  window of twenty-four hours, because its text \<open>2024-02-09 06:00:00 +0000 UTC\<close> is above
  the cutoff's text \<open>2024-02-09 04:00:00.5 -0800 PST ...\<close>. Compared as instants it is
  outside the window and is not returned.
\<close>

theorem stale_article_returned:
  "GetUnreadArticles_driver pacific_driver 1707566400500000000 db_stale (24 * Hour)
     = ([stale_article], None) \<and>
   PublishedAt stale_article = 1707566400500000000 - 30 * Hour - 500000000 \<and>
   PublishedAt stale_article < 1707566400500000000 - 24 * Hour \<and>
   GetUnreadArticles 1707566400500000000 db_stale (24 * Hour) = []"
  by (simp add: GetUnreadArticles_driver_def GetUnreadArticles_def pacific_driver_def db_stale_def
      stale_article_def example_article_def left_join_def unread_where_def Hour_def wrap64_def)

section \<open>Marking an article read\<close>

lemma MarkArticleRead_marks:
  "fst (MarkArticleRead now db articleID) = None \<Longrightarrow>
   articleID \<in> set (map ArticleID (read_articles (snd (MarkArticleRead now db articleID))))"
  by (simp add: MarkArticleRead_def split: if_splits)

lemma MarkArticleRead_marked:
  "articleID \<in> set (map ArticleID (read_articles db)) \<Longrightarrow>
   MarkArticleRead now db articleID =
     (Some (Wrap ''marking article as read''
        (ConstraintFailed ''UNIQUE constraint failed: read_articles.article_id'')), db)"
  by (simp add: MarkArticleRead_def)

text \<open>
  Claim C3, as amended. Calling \<open>MarkArticleRead\<close> on an article that already has a row
  in \<open>read_articles\<close>, in particular a second time after a call that succeeded, leaves
  the store unchanged and returns the wrapped constraint error of the failed INSERT
  (the function does not swallow it).
\<close>

theorem MarkArticleRead_again:
  "(articleID \<in> set (map ArticleID (read_articles db)) \<longrightarrow>
      MarkArticleRead now db articleID =
        (Some (Wrap ''marking article as read''
           (ConstraintFailed ''UNIQUE constraint failed: read_articles.article_id'')), db)) \<and>
   (fst (MarkArticleRead now db articleID) = None \<longrightarrow>
      MarkArticleRead later (snd (MarkArticleRead now db articleID)) articleID =
        (Some (Wrap ''marking article as read''
           (ConstraintFailed ''UNIQUE constraint failed: read_articles.article_id'')),
         snd (MarkArticleRead now db articleID)))"
proof (intro conjI impI)
  assume "articleID \<in> set (map ArticleID (read_articles db))"
  then show "MarkArticleRead now db articleID =
        (Some (Wrap ''marking article as read''
           (ConstraintFailed ''UNIQUE constraint failed: read_articles.article_id'')), db)"
    by (rule MarkArticleRead_marked)
next
  assume "fst (MarkArticleRead now db articleID) = None"
  then have "articleID \<in> set (map ArticleID (read_articles (snd (MarkArticleRead now db articleID))))"
    by (rule MarkArticleRead_marks)
  then show "MarkArticleRead later (snd (MarkArticleRead now db articleID)) articleID =
        (Some (Wrap ''marking article as read''
           (ConstraintFailed ''UNIQUE constraint failed: read_articles.article_id'')),
         snd (MarkArticleRead now db articleID))"
    by (rule MarkArticleRead_marked)
qed

theorem MarkArticleRead_again_witness:
  "fst (MarkArticleRead 60 example_db 1) = None \<and>
   4 \<in> set (map ArticleID (read_articles example_db)) \<and>
   MarkArticleRead 60 example_db 4 =
     (Some (Wrap ''marking article as read''
        (ConstraintFailed ''UNIQUE constraint failed: read_articles.article_id'')), example_db) \<and>
   MarkArticleRead 61 (snd (MarkArticleRead 60 example_db 1)) 1 =
     (Some (Wrap ''marking article as read''
        (ConstraintFailed ''UNIQUE constraint failed: read_articles.article_id'')),
      snd (MarkArticleRead 60 example_db 1))"
proof -
  have m: "fst (MarkArticleRead 60 example_db 1) = None"
    by (simp add: MarkArticleRead_def example_db_def example_article_def)
  have h: "4 \<in> set (map ArticleID (read_articles example_db))"
    by (simp add: example_db_def)
  from MarkArticleRead_again [of 4 example_db 60 61] MarkArticleRead_again [of 1 example_db 60 61]
    m h
  show ?thesis by simp
qed

theorem MarkArticleRead_second_call_errors:
  "fst (MarkArticleRead 61 (snd (MarkArticleRead 60 example_db 1)) 1) \<noteq> None"
  by (simp add: MarkArticleRead_def example_db_def example_article_def)

section \<open>Conversion of feed items\<close>

lemma convertToArticle_published:
  "convertToArticle item fid = Some a \<Longrightarrow>
   PublishedParsed item = Some (PublishedAt a) \<or>
   (PublishedParsed item = None \<and> UpdatedParsed item = Some (PublishedAt a))"
  by (auto simp: convertToArticle_def Let_def split: option.splits)

lemma AddArticle_articles:
  "AddArticle now db art = (r, db') \<Longrightarrow> a \<in> set (articles db') \<Longrightarrow>
   a \<in> set (articles db) \<or> PublishedAt a = PublishedAt art"
  by (auto simp: AddArticle_def Let_def split: if_splits)

lemma store_items_articles:
  "store_items now fid items (db, n) = (db', n') \<Longrightarrow> a \<in> set (articles db') \<Longrightarrow>
   a \<in> set (articles db) \<or>
   (\<exists>item\<in>set items. PublishedParsed item = Some (PublishedAt a) \<or>
        (PublishedParsed item = None \<and> UpdatedParsed item = Some (PublishedAt a)))"
proof (induction items arbitrary: db n)
  case Nil
  then show ?case by simp
next
  case (Cons item rest)
  show ?case
  proof (cases "convertToArticle item fid")
    case None
    with Cons.prems have "store_items now fid rest (db, n) = (db', n')" by simp
    from Cons.IH [OF this Cons.prems(2)] show ?thesis by auto
  next
    case (Some art)
    obtain r e db1 where add: "AddArticle now db art = ((r, e), db1)"
      by (metis prod.exhaust)
    from Cons.prems(1) Some add obtain n1 where "store_items now fid rest (db1, n1) = (db', n')"
      by (cases e) auto
    from Cons.IH [OF this Cons.prems(2)]
    consider "a \<in> set (articles db1)"
      | "\<exists>item\<in>set rest. PublishedParsed item = Some (PublishedAt a) \<or>
        (PublishedParsed item = None \<and> UpdatedParsed item = Some (PublishedAt a))"
      by blast
    then show ?thesis
    proof cases
      case 1
      from AddArticle_articles [OF add 1] convertToArticle_published [OF Some]
      show ?thesis by auto
    next
      case 2
      then show ?thesis by auto
    qed
  qed
qed

lemma store_items_undated:
  "\<forall>item\<in>set items. PublishedParsed item = None \<and> UpdatedParsed item = None \<Longrightarrow>
   store_items now fid items st = st"
proof (induction items arbitrary: st)
  case Nil
  then show ?case by simp
next
  case (Cons item rest)
  then have "convertToArticle item fid = None" by (simp add: convertToArticle_def)
  with Cons show ?case by (cases st) simp
qed

text \<open>
  Claim C8. \<open>convertToArticle\<close> takes the published timestamp when the item has one,
  else the updated timestamp, and returns \<open>nil\<close> when it has neither; every article in
  the store after \<open>FetchAndStore\<close> that was not there before carries the published (else
  updated) timestamp of one of the fetched items, and items with no timestamp leave the
  store as it was.
\<close>

theorem published_at_from_feed:
  "(PublishedParsed item = Some t \<longrightarrow>
      (\<exists>a. convertToArticle item fid = Some a \<and> PublishedAt a = t)) \<and>
   (PublishedParsed item = None \<and> UpdatedParsed item = Some u \<longrightarrow>
      (\<exists>a. convertToArticle item fid = Some a \<and> PublishedAt a = u)) \<and>
   (PublishedParsed item = None \<and> UpdatedParsed item = None \<longrightarrow>
      convertToArticle item fid = None) \<and>
   (\<forall>a \<in> set (articles (snd (FetchAndStore (items, None) now feed db))).
      a \<in> set (articles db) \<or>
      (\<exists>item\<in>set items. PublishedParsed item = Some (PublishedAt a) \<or>
        (PublishedParsed item = None \<and> UpdatedParsed item = Some (PublishedAt a)))) \<and>
   ((\<forall>item\<in>set items. PublishedParsed item = None \<and> UpdatedParsed item = None) \<longrightarrow>
      FetchAndStore (items, None) now feed db = ((0, None), db))"
proof -
  have 1: "PublishedParsed item = Some t \<Longrightarrow>
      \<exists>a. convertToArticle item fid = Some a \<and> PublishedAt a = t"
    by (simp add: convertToArticle_def Let_def)
  have 2: "PublishedParsed item = None \<and> UpdatedParsed item = Some u \<Longrightarrow>
      \<exists>a. convertToArticle item fid = Some a \<and> PublishedAt a = u"
    by (simp add: convertToArticle_def Let_def)
  have 3: "PublishedParsed item = None \<and> UpdatedParsed item = None \<Longrightarrow>
      convertToArticle item fid = None"
    by (simp add: convertToArticle_def)
  obtain db' n' where st: "store_items now (Feed_ID feed) items (db, 0) = (db', n')"
    by (metis prod.exhaust)
  then have fs: "FetchAndStore (items, None) now feed db = ((n', None), db')"
    by (simp add: FetchAndStore_def)
  have 4: "\<forall>a \<in> set (articles (snd (FetchAndStore (items, None) now feed db))).
      a \<in> set (articles db) \<or>
      (\<exists>item\<in>set items. PublishedParsed item = Some (PublishedAt a) \<or>
        (PublishedParsed item = None \<and> UpdatedParsed item = Some (PublishedAt a)))"
    using store_items_articles [OF st] by (simp add: fs)
  have 5: "(\<forall>item\<in>set items. PublishedParsed item = None \<and> UpdatedParsed item = None) \<Longrightarrow>
      FetchAndStore (items, None) now feed db = ((0, None), db)"
    by (simp add: FetchAndStore_def store_items_undated)
  from 1 2 3 4 5 show ?thesis by blast
qed

theorem published_at_from_feed_witness:
  "map_option PublishedAt (convertToArticle item_published 1) = Some 5 \<and>
   map_option PublishedAt (convertToArticle item_updated 1) = Some 7 \<and>
   convertToArticle item_undated 1 = None \<and>
   fst (FetchAndStore ([item_published, item_undated, item_updated], None) 50 example_feed example_db)
     = (2, None) \<and>
   map PublishedAt (articles (snd (FetchAndStore ([item_published, item_undated, item_updated], None)
       50 example_feed example_db))) = [10, 20, 30, 40, - 100, 5, 7] \<and>
   FetchAndStore ([item_undated], None) 50 example_feed example_db = ((0, None), example_db)"
  using published_at_from_feed [of item_published 5 1 7 "[item_published, item_undated, item_updated]"
      50 example_feed example_db]
    published_at_from_feed [of item_updated 5 1 7 "[item_undated]" 50 example_feed example_db]
    published_at_from_feed [of item_undated 5 1 7 "[item_undated]" 50 example_feed example_db]
  by (simp add: item_published_def item_updated_def item_undated_def convertToArticle_def
      FetchAndStore_def AddArticle_def example_db_def example_feed_def example_article_def)

lemma AddArticle_stores:
  "AddArticle now db article = ((r, None), db') \<Longrightarrow>
   articles db' = articles db @ [article\<lparr>ID := articles_seq db + 1, FetchedAt := now\<rparr>]"
  by (auto simp: AddArticle_def Let_def split: if_splits)

lemma characters_single_byte: "single_byte s \<Longrightarrow> characters s = length s"
  by (induction s) (auto simp: characters_def single_byte_def continuation_byte_def)

lemma single_byte_take: "single_byte s \<Longrightarrow> single_byte (take n s)"
  by (auto simp: single_byte_def dest: in_set_takeD)

text \<open>
  Claim C9, as amended. For an item with no summary and a body of single-byte characters,
  the description is the body truncated to its first 500 characters followed by \<open>...\<close>
  when the body is longer than 500 characters, and the whole body with nothing appended
  when it is not; when the item has a summary, the description is the summary unchanged.
  A successful insert stores that description as it is.
\<close>

theorem convertToArticle_description:
  assumes "convertToArticle item fid = Some a"
  shows "(Item_Description item \<noteq> [] \<longrightarrow> Description a = Item_Description item) \<and>
     (Item_Description item = [] \<and> Item_Content item \<noteq> [] \<and> single_byte (Item_Content item) \<longrightarrow>
        (500 < characters (Item_Content item) \<longrightarrow>
           Description a = take 500 (Item_Content item) @ ''...'' \<and>
           characters (take 500 (Item_Content item)) = 500) \<and>
        (characters (Item_Content item) \<le> 500 \<longrightarrow> Description a = Item_Content item)) \<and>
     (\<forall>now db r db'. AddArticle now db a = ((r, None), db') \<longrightarrow>
        Description (last (articles db')) = Description a)"
proof (intro conjI impI)
  show "Description a = Item_Description item" if "Item_Description item \<noteq> []"
    using assms that by (auto simp: convertToArticle_def Let_def split: option.splits)
next
  assume h: "Item_Description item = [] \<and> Item_Content item \<noteq> [] \<and> single_byte (Item_Content item)"
  then have len: "characters (Item_Content item) = length (Item_Content item)"
    by (simp add: characters_single_byte)
  have d: "Description a =
      (if length (Item_Content item) > 500 then take 500 (Item_Content item) @ ''...''
       else Item_Content item)"
    using assms h by (auto simp: convertToArticle_def Let_def split: option.splits)
  {
    assume "500 < characters (Item_Content item)"
    then have l: "500 < length (Item_Content item)" by (simp add: len)
    then show "Description a = take 500 (Item_Content item) @ ''...''" by (simp add: d)
    from h have "single_byte (take 500 (Item_Content item))" by (simp add: single_byte_take)
    then show "characters (take 500 (Item_Content item)) = 500"
      using l by (simp add: characters_single_byte)
  }
  {
    assume "characters (Item_Content item) \<le> 500"
    then show "Description a = Item_Content item" by (simp add: d len)
  }
next
  show "\<forall>now db r db'. AddArticle now db a = ((r, None), db') \<longrightarrow>
        Description (last (articles db')) = Description a"
    by (auto dest: AddArticle_stores)
qed

theorem convertToArticle_description_witness:
  "single_byte (Item_Content item_long) \<and> 500 < characters (Item_Content item_long) \<and>
   map_option Description (convertToArticle item_long 1)
     = Some (replicate 500 (CHR ''a'') @ ''...'') \<and>
   single_byte (Item_Content item_updated) \<and> characters (Item_Content item_updated) \<le> 500 \<and>
   map_option Description (convertToArticle item_updated 1) = Some ''abc'' \<and>
   map_option Description (convertToArticle item_published 1) = Some ''summary'' \<and>
   snd (fst (AddArticle 50 example_db (the (convertToArticle item_updated 1)))) = None \<and>
   Description (last (articles (snd
       (AddArticle 50 example_db (the (convertToArticle item_updated 1)))))) = ''abc''"
proof -
  obtain a where a: "convertToArticle item_long 1 = Some a"
    by (simp add: convertToArticle_def item_long_def)
  obtain b where b: "convertToArticle item_updated 1 = Some b"
    by (simp add: convertToArticle_def item_updated_def)
  obtain c where c: "convertToArticle item_published 1 = Some c"
    by (simp add: convertToArticle_def item_published_def)
  have sl: "single_byte (Item_Content item_long)"
    by (simp add: single_byte_def item_long_def)
  have cl: "characters (Item_Content item_long) = 501"
    using characters_single_byte [OF sl] by (simp add: item_long_def)
  have su: "single_byte (Item_Content item_updated)"
    by (simp add: single_byte_def item_updated_def)
  have cu: "characters (Item_Content item_updated) = 3"
    using characters_single_byte [OF su] by (simp add: item_updated_def)
  have da: "Description a = replicate 500 (CHR ''a'') @ ''...''"
    using convertToArticle_description [OF a] sl cl by (simp add: item_long_def)
  have db: "Description b = ''abc''"
    using convertToArticle_description [OF b] su cu by (simp add: item_updated_def)
  have dc: "Description c = ''summary''"
    using convertToArticle_description [OF c] by (simp add: item_published_def)
  have bq: "URL b = ''q''" "FeedID b = 1"
    using b by (auto simp: convertToArticle_def item_updated_def)
  have ok: "snd (fst (AddArticle 50 example_db b)) = None"
    using bq by (simp add: AddArticle_def example_db_def example_article_def example_feed_def Let_def)
  then have "AddArticle 50 example_db b =
      ((fst (fst (AddArticle 50 example_db b)), None), snd (AddArticle 50 example_db b))"
    by (metis prod.collapse)
  with convertToArticle_description [OF b]
  have "Description (last (articles (snd (AddArticle 50 example_db b)))) = Description b"
    by blast
  with da db dc ok sl su cl cu show ?thesis by (simp add: a b c)
qed

theorem short_body_gets_no_ellipsis:
  "map_option Description (convertToArticle item_updated 1)
     \<noteq> Some (take 500 (Item_Content item_updated) @ ''...'')"
  by (simp add: convertToArticle_def item_updated_def)

section \<open>Scoring one article\<close>

lemma score_interest_calls:
  "\<exists>more. calls (snd (snd (score_interest E v interest st))) = calls st @ more"
  by (auto simp: score_interest_def accumulate_def GetEmbedding_def Let_def split: option.splits)

lemma score_loop_calls:
  "\<exists>more. calls (snd (score_loop E v interests st)) = calls st @ more"
proof (induction interests arbitrary: st)
  case Nil
  then show ?case by simp
next
  case (Cons interest rest)
  obtain e i' st' where si: "score_interest E v interest st = (e, i', st')"
    by (metis prod_cases3)
  from score_interest_calls [of E v interest st] si
  obtain m1 where m1: "calls st' = calls st @ m1" by auto
  show ?case
  proof (cases e)
    case None
    from Cons.IH [of st'] obtain m2 where "calls (snd (score_loop E v rest st')) = calls st' @ m2"
      by blast
    with m1 si None show ?thesis by simp
  next
    case (Some err)
    with si m1 show ?thesis by simp
  qed
qed

text \<open>
  Claim C6, as amended. The text \<open>ScoreArticle\<close> sends for the article is
  \<open>"{title}. {description}"\<close> with the stored description as it is, also when it is
  empty; the article's body (\<open>Content\<close>) has no influence on \<open>ScoreArticle\<close>.
\<close>

theorem articleText_shape:
  "articleText article = Title article @ ''. '' @ Description article \<and>
   (\<exists>more. snd (ScoreArticle E reqs article interests) = reqs @ articleText article # more) \<and>
   ScoreArticle E reqs (article\<lparr>Content := body\<rparr>) interests = ScoreArticle E reqs article interests"
proof -
  have 1: "articleText article = Title article @ ''. '' @ Description article"
    by (simp add: articleText_def)
  have 3: "ScoreArticle E reqs (article\<lparr>Content := body\<rparr>) interests
      = ScoreArticle E reqs article interests"
    by (simp add: ScoreArticle_def articleText_def)
  have 2: "\<exists>more. snd (ScoreArticle E reqs article interests) = reqs @ articleText article # more"
  proof (cases "ollama E reqs (articleText article)")
    case None
    then show ?thesis by (simp add: ScoreArticle_def GetEmbedding_def)
  next
    case (Some av)
    let ?st = "\<lparr>totalScore = 0, totalWeight = 0, calls = reqs @ [articleText article]\<rparr>"
    obtain e st' where sl: "score_loop E av interests ?st = (e, st')" by (metis prod.exhaust)
    from score_loop_calls [of E av interests ?st] sl
    obtain more where "calls st' = (reqs @ [articleText article]) @ more" by auto
    then have "snd (ScoreArticle E reqs article interests) = reqs @ articleText article # more"
      using Some sl by (cases e) (simp_all add: ScoreArticle_def GetEmbedding_def)
    then show ?thesis by blast
  qed
  from 1 2 3 show ?thesis by blast
qed

theorem articleText_shape_witness:
  "articleText article_without_description = ''T. '' \<and>
   snd (ScoreArticle example_env [] article_without_description []) = [''T. '']"
proof -
  have t: "articleText article_without_description = ''T. ''"
    by (simp add: articleText_def article_without_description_def example_article_def)
  from articleText_shape [of article_without_description example_env "[]" "[]" "[]"]
  obtain more where m: "snd (ScoreArticle example_env [] article_without_description [])
      = articleText article_without_description # more"
    by auto
  have "snd (ScoreArticle example_env [] article_without_description []) = [''T. '']"
    by (simp add: ScoreArticle_def GetEmbedding_def t example_env_def)
  with t m show ?thesis by simp
qed

theorem empty_description_not_replaced_by_body:
  "articleText article_without_description
     \<noteq> Title article_without_description @ ''. '' @ Content article_without_description"
  by (simp add: articleText_def article_without_description_def example_article_def)

lemma score_interest_usable:
  assumes "Embedding interest \<noteq> [] \<longrightarrow> json_Unmarshal E (Embedding interest) \<noteq> None"
  shows "\<exists>i' st'. score_interest E av interest st = (None, i', st') \<and>
     totalScore st' = totalScore st + (\<Sum>(v, w)\<leftarrow>usable_embeddings E (calls st) [interest]. CosineSimilarity av v * w) \<and>
     totalWeight st' = totalWeight st + (\<Sum>(v, w)\<leftarrow>usable_embeddings E (calls st) [interest]. w) \<and>
     calls st' = (if Embedding interest \<noteq> [] then calls st
                  else calls st @ [Interest_Description interest])"
  using assms
  by (auto simp: score_interest_def accumulate_def GetEmbedding_def Let_def split: option.splits)

lemma usable_embeddings_Cons:
  "usable_embeddings E reqs (interest # rest) =
     usable_embeddings E reqs [interest] @
     usable_embeddings E (if Embedding interest \<noteq> [] then reqs
                          else reqs @ [Interest_Description interest]) rest"
  by (simp split: option.splits)

lemma score_loop_usable:
  assumes "\<forall>i\<in>set interests. Embedding i \<noteq> [] \<longrightarrow> json_Unmarshal E (Embedding i) \<noteq> None"
  shows "\<exists>st'. score_loop E av interests st = (None, st') \<and>
     totalScore st' = totalScore st + (\<Sum>(v, w)\<leftarrow>usable_embeddings E (calls st) interests. CosineSimilarity av v * w) \<and>
     totalWeight st' = totalWeight st + (\<Sum>(v, w)\<leftarrow>usable_embeddings E (calls st) interests. w)"
  using assms
proof (induction interests arbitrary: st)
  case Nil
  then show ?case by simp
next
  case (Cons interest rest)
  from Cons.prems have ok: "Embedding interest \<noteq> [] \<longrightarrow> json_Unmarshal E (Embedding interest) \<noteq> None"
    by simp
  from score_interest_usable [OF ok, of av st]
  obtain i' st1 where s1: "score_interest E av interest st = (None, i', st1)"
    and t1: "totalScore st1 = totalScore st + (\<Sum>(v, w)\<leftarrow>usable_embeddings E (calls st) [interest]. CosineSimilarity av v * w)"
    and w1: "totalWeight st1 = totalWeight st + (\<Sum>(v, w)\<leftarrow>usable_embeddings E (calls st) [interest]. w)"
    and c1: "calls st1 = (if Embedding interest \<noteq> [] then calls st
                  else calls st @ [Interest_Description interest])"
    by blast
  from Cons.prems have "\<forall>i\<in>set rest. Embedding i \<noteq> [] \<longrightarrow> json_Unmarshal E (Embedding i) \<noteq> None"
    by simp
  from Cons.IH [OF this, of st1]
  obtain st2 where s2: "score_loop E av rest st1 = (None, st2)"
    and t2: "totalScore st2 = totalScore st1 + (\<Sum>(v, w)\<leftarrow>usable_embeddings E (calls st1) rest. CosineSimilarity av v * w)"
    and w2: "totalWeight st2 = totalWeight st1 + (\<Sum>(v, w)\<leftarrow>usable_embeddings E (calls st1) rest. w)"
    by blast
  have "score_loop E av (interest # rest) st = (None, st2)" using s1 s2 by simp
  moreover have "totalScore st2 = totalScore st + (\<Sum>(v, w)\<leftarrow>usable_embeddings E (calls st) (interest # rest). CosineSimilarity av v * w)"
    unfolding usable_embeddings_Cons [of E "calls st" interest rest] t2 t1 c1 by simp
  moreover have "totalWeight st2 = totalWeight st + (\<Sum>(v, w)\<leftarrow>usable_embeddings E (calls st) (interest # rest). w)"
    unfolding usable_embeddings_Cons [of E "calls st" interest rest] w2 w1 c1 by simp
  ultimately show ?case by blast
qed

text \<open>
  Claim C2, as amended. Once the article embedding is obtained, and provided every
  non-empty cached interest embedding decodes, \<open>ScoreArticle\<close> returns without error
  the sum of \<open>similarity * weight\<close> over the sum of \<open>weight\<close>, both taken over exactly the
  interests that yielded an embedding (an interest whose embedding request fails is in
  neither sum), and 0 when that total weight is 0.
\<close>

theorem ScoreArticle_weighted_average:
  assumes "ollama E reqs (articleText article) = Some articleEmb"
    and "\<forall>i\<in>set interests. Embedding i \<noteq> [] \<longrightarrow> json_Unmarshal E (Embedding i) \<noteq> None"
  shows "fst (ScoreArticle E reqs article interests) =
     (weighted_average articleEmb
        (usable_embeddings E (reqs @ [articleText article]) interests), None)"
proof -
  let ?st = "\<lparr>totalScore = 0, totalWeight = 0, calls = reqs @ [articleText article]\<rparr>"
  from score_loop_usable [OF assms(2), of articleEmb ?st]
  obtain st' where sl: "score_loop E articleEmb interests ?st = (None, st')"
    and t: "totalScore st' = (\<Sum>(v, w)\<leftarrow>usable_embeddings E (reqs @ [articleText article]) interests. CosineSimilarity articleEmb v * w)"
    and w: "totalWeight st' = (\<Sum>(v, w)\<leftarrow>usable_embeddings E (reqs @ [articleText article]) interests. w)"
    by auto
  show ?thesis
    using assms(1) sl by (simp add: ScoreArticle_def GetEmbedding_def weighted_average_def t w)
qed

lemma cos_same: "CosineSimilarity [1, 0] [1, 0] = 1"
  by (simp add: CosineSimilarity_def)

lemma cos_orth: "CosineSimilarity [1, 0] [0, 1] = 0"
  by (simp add: CosineSimilarity_def)

lemma cos_opp: "CosineSimilarity [1, 0] [- 1, 0] = - 1"
  by (simp add: CosineSimilarity_def)

lemmas example_defs = example_env_def example_interest_def example_article_def
  articleText_def

theorem ScoreArticle_weighted_average_witness:
  "ollama example_env [] (articleText (example_article 1 ''u1'' 10 0)) = Some [1, 0] \<and>
   fst (ScoreArticle example_env [] (example_article 1 ''u1'' 10 0)
          [example_interest 1 ''a'' 2 ''[1,0]'', example_interest 2 ''fail'' 5 [],
           example_interest 3 ''b'' 1 ''[0,1]'']) = (2 / 3, None) \<and>
   fst (ScoreArticle example_env [] (example_article 1 ''u1'' 10 0) []) = (0, None)"
proof -
  have a: "ollama example_env [] (articleText (example_article 1 ''u1'' 10 0)) = Some [1, 0]"
    by (simp add: example_defs)
  have h: "\<forall>i\<in>set [example_interest 1 ''a'' 2 ''[1,0]'', example_interest 2 ''fail'' 5 [],
           example_interest 3 ''b'' 1 ''[0,1]'']. Embedding i \<noteq> [] \<longrightarrow>
           json_Unmarshal example_env (Embedding i) \<noteq> None"
    by (simp add: example_defs)
  have h0: "\<forall>i\<in>set []. Embedding i \<noteq> [] \<longrightarrow> json_Unmarshal example_env (Embedding i) \<noteq> None"
    by simp
  have u: "usable_embeddings example_env ([] @ [articleText (example_article 1 ''u1'' 10 0)])
      [example_interest 1 ''a'' 2 ''[1,0]'', example_interest 2 ''fail'' 5 [],
           example_interest 3 ''b'' 1 ''[0,1]''] = [([1, 0], 2), ([0, 1], 1)]"
    by (simp add: example_defs)
  from ScoreArticle_weighted_average [OF a h] ScoreArticle_weighted_average [OF a h0] a
  show ?thesis unfolding u by (simp add: weighted_average_def cos_same cos_orth)
qed

theorem corrupt_cache_is_an_error:
  "fst (ScoreArticle example_env [] (example_article 1 ''u1'' 10 0)
          [example_interest 1 ''a'' 2 ''xx''])
   \<noteq> (weighted_average [1, 0]
        (usable_embeddings example_env [articleText (example_article 1 ''u1'' 10 0)]
           [example_interest 1 ''a'' 2 ''xx'']), None)"
  by (simp add: ScoreArticle_def GetEmbedding_def score_interest_def example_defs)

lemma score_loop_abort:
  assumes "Embedding bad \<noteq> []" "json_Unmarshal E (Embedding bad) = None"
  shows "score_loop E av (pre @ bad # post) st = score_loop E av (pre @ [bad]) st \<and>
         fst (score_loop E av (pre @ [bad]) st)
           = Some (Wrap ''unmarshaling interest embedding'' UnmarshalError)"
proof (induction pre arbitrary: st)
  case Nil
  show ?case using assms by (simp add: score_interest_def)
next
  case (Cons interest rest)
  obtain e i' st' where si: "score_interest E av interest st = (e, i', st')"
    by (metis prod_cases3)
  show ?case
  proof (cases e)
    case None
    with si Cons.IH [of st'] show ?thesis by simp
  next
    case (Some err)
    with si have "err = Wrap ''unmarshaling interest embedding'' UnmarshalError"
      by (auto simp: score_interest_def GetEmbedding_def split: if_splits option.splits)
    with si Some show ?thesis by simp
  qed
qed

text \<open>
  Claim C10. If an interest carries a non-empty cached embedding that does not decode,
  \<open>ScoreArticle\<close> returns score 0 with an error (the unmarshal error whenever the
  article embedding was obtained), and the interests after it are not processed: the
  whole result, requests included, is the same as if the list ended there.
\<close>

theorem ScoreArticle_corrupt_cache:
  assumes "Embedding bad \<noteq> []" "json_Unmarshal E (Embedding bad) = None"
  shows "(\<exists>err. fst (ScoreArticle E reqs article (pre @ bad # post)) = (0, Some err)) \<and>
     (ollama E reqs (articleText article) \<noteq> None \<longrightarrow>
        fst (ScoreArticle E reqs article (pre @ bad # post)) =
          (0, Some (Wrap ''unmarshaling interest embedding'' UnmarshalError))) \<and>
     ScoreArticle E reqs article (pre @ bad # post) = ScoreArticle E reqs article (pre @ [bad])"
proof (cases "ollama E reqs (articleText article)")
  case None
  then show ?thesis by (simp add: ScoreArticle_def GetEmbedding_def)
next
  case (Some av)
  let ?st = "\<lparr>totalScore = 0, totalWeight = 0, calls = reqs @ [articleText article]\<rparr>"
  from score_loop_abort [OF assms, of av pre post ?st]
  have eq: "score_loop E av (pre @ bad # post) ?st = score_loop E av (pre @ [bad]) ?st"
    and er: "fst (score_loop E av (pre @ [bad]) ?st)
           = Some (Wrap ''unmarshaling interest embedding'' UnmarshalError)"
    by simp_all
  obtain st' where sl: "score_loop E av (pre @ [bad]) ?st
      = (Some (Wrap ''unmarshaling interest embedding'' UnmarshalError), st')"
    using er by (metis prod.collapse)
  show ?thesis using Some sl eq by (simp add: ScoreArticle_def GetEmbedding_def)
qed

theorem ScoreArticle_corrupt_cache_witness:
  "Embedding (example_interest 2 ''b'' 1 ''xx'') \<noteq> [] \<and>
   json_Unmarshal example_env (Embedding (example_interest 2 ''b'' 1 ''xx'')) = None \<and>
   ScoreArticle example_env [] (example_article 1 ''u1'' 10 0)
      [example_interest 1 ''a'' 2 ''[1,0]'', example_interest 2 ''b'' 1 ''xx'',
       example_interest 3 ''go'' 1 []]
     = ((0, Some (Wrap ''unmarshaling interest embedding'' UnmarshalError)), [''T. d''])"
proof -
  have e: "Embedding (example_interest 2 ''b'' 1 ''xx'') \<noteq> []"
    by (simp add: example_defs)
  have n: "json_Unmarshal example_env (Embedding (example_interest 2 ''b'' 1 ''xx'')) = None"
    by (simp add: example_defs)
  have s: "ScoreArticle example_env [] (example_article 1 ''u1'' 10 0)
      ([example_interest 1 ''a'' 2 ''[1,0]''] @ [example_interest 2 ''b'' 1 ''xx''])
     = ((0, Some (Wrap ''unmarshaling interest embedding'' UnmarshalError)), [''T. d''])"
    by (simp add: ScoreArticle_def GetEmbedding_def score_interest_def accumulate_def example_defs)
  from ScoreArticle_corrupt_cache [OF e n, of "[]" "example_article 1 ''u1'' 10 0"
      "[example_interest 1 ''a'' 2 ''[1,0]'']" "[example_interest 3 ''go'' 1 []]"] e n
  show ?thesis unfolding s by simp
qed

section \<open>Scoring the unread working set\<close>

text \<open>Two facts about every pass: articles with a positive score are skipped, and the
  \<open>user_interests\<close> table is never written.\<close>

lemma score_articles_skips_positive:
  "\<forall>a\<in>set as. RelevanceScore a > 0 \<Longrightarrow> score_articles E interests as st = st"
proof (induction as)
  case Nil
  then show ?case by simp
next
  case (Cons a as)
  then show ?case by (cases st) simp
qed

lemma score_articles_keeps_interests:
  "user_interests (fst (score_articles E interests as (db, reqs, n))) = user_interests db"
proof (induction as arbitrary: db reqs n)
  case Nil
  then show ?case by simp
next
  case (Cons a as)
  show ?case
  proof (cases "RelevanceScore a > 0")
    case True
    with Cons.IH show ?thesis by simp
  next
    case False
    obtain score e reqs' where sa: "ScoreArticle E reqs a interests = ((score, e), reqs')"
      by (metis prod.exhaust)
    show ?thesis
    proof (cases e)
      case None
      have "user_interests (UpdateArticleRelevance db (ID a) score) = user_interests db"
        by (simp add: UpdateArticleRelevance_def)
      with Cons.IH [of "UpdateArticleRelevance db (ID a) score" reqs' "n + 1"] False sa None
      show ?thesis by simp
    next
      case (Some err)
      with Cons.IH [of db reqs' n] False sa show ?thesis by simp
    qed
  qed
qed

lemma ScoreAllUnscored_keeps_interests:
  "user_interests (fst (snd (ScoreAllUnscored E now maxAgeDays (db, reqs)))) = user_interests db"
proof (cases "length (GetInterests db) = 0")
  case True
  then show ?thesis by (simp add: ScoreAllUnscored_def)
next
  case False
  obtain db' reqs' n where sa: "score_articles E (GetInterests db)
      (GetUnreadArticles now db (wrap64 (wrap64 (maxAgeDays * 24) * Hour))) (db, reqs, 0) = (db', reqs', n)"
    by (metis prod_cases3)
  from score_articles_keeps_interests [of E "GetInterests db"
      "GetUnreadArticles now db (wrap64 (wrap64 (maxAgeDays * 24) * Hour))" db reqs 0] sa
  have "user_interests db' = user_interests db" by simp
  with False sa show ?thesis by (simp add: ScoreAllUnscored_def Let_def)
qed

lemma example_article_sel:
  "ID (example_article i u t s) = i" "RelevanceScore (example_article i u t s) = s"
  by (simp_all add: example_article_def)

lemma ScoreArticle_negative:
  "ScoreArticle example_env reqs (example_article 1 ''u1'' 10 s)
     [example_interest 1 ''opposite'' 1 ''[-1,0]''] = ((- 1, None), reqs @ [''T. d''])"
  by (simp add: ScoreArticle_def GetEmbedding_def score_interest_def accumulate_def example_defs
      cos_opp)

lemma one_day: "wrap64 (wrap64 24 * Hour) = 24 * Hour"
  by (simp add: wrap64_def Hour_def)

lemma unread_negative:
  "GetUnreadArticles 50 (db_negative\<lparr>articles := [example_article 1 ''u1'' 10 s]\<rparr>) (24 * Hour)
     = [example_article 1 ''u1'' 10 s]"
  by (simp add: GetUnreadArticles_def db_negative_def left_join_def unread_where_def
      example_article_def Hour_def wrap64_def)

text \<open>
  Claim C4 (the code departs from it). An article whose stored score is negative is not
  skipped: after a first pass that stores the score \<open>-1\<close>, a second pass over the same
  store requests the article's embedding again and writes its score again.
\<close>

theorem negative_score_is_rescored:
  "ScoreAllUnscored example_env 50 1 (db_negative, []) =
     (None, db_negative\<lparr>articles := [example_article 1 ''u1'' 10 (- 1)]\<rparr>, [''T. d'']) \<and>
   ScoreAllUnscored example_env 50 1
       (db_negative\<lparr>articles := [example_article 1 ''u1'' 10 (- 1)]\<rparr>, [''T. d'']) =
     (None, db_negative\<lparr>articles := [example_article 1 ''u1'' 10 (- 1)]\<rparr>, [''T. d'', ''T. d''])"
proof -
  have i: "GetInterests (db_negative\<lparr>articles := as\<rparr>) = [example_interest 1 ''opposite'' 1 ''[-1,0]'']" for as
    by (simp add: GetInterests_def db_negative_def)
  have d: "db_negative = db_negative\<lparr>articles := [example_article 1 ''u1'' 10 0]\<rparr>"
    by (simp add: db_negative_def)
  have u: "UpdateArticleRelevance (db_negative\<lparr>articles := [example_article 1 ''u1'' 10 s]\<rparr>) 1 (- 1)
     = db_negative\<lparr>articles := [example_article 1 ''u1'' 10 (- 1)]\<rparr>" for s
    by (simp add: UpdateArticleRelevance_def example_article_def)
  have 1: "ScoreAllUnscored example_env 50 1 (db_negative\<lparr>articles := [example_article 1 ''u1'' 10 0]\<rparr>, []) =
     (None, db_negative\<lparr>articles := [example_article 1 ''u1'' 10 (- 1)]\<rparr>, [''T. d''])"
    unfolding ScoreAllUnscored_def
    by (simp add: i one_day unread_negative ScoreArticle_negative u example_article_sel)
  have 2: "ScoreAllUnscored example_env 50 1
       (db_negative\<lparr>articles := [example_article 1 ''u1'' 10 (- 1)]\<rparr>, [''T. d'']) =
     (None, db_negative\<lparr>articles := [example_article 1 ''u1'' 10 (- 1)]\<rparr>, [''T. d'', ''T. d''])"
    unfolding ScoreAllUnscored_def
    by (simp add: i one_day unread_negative ScoreArticle_negative u example_article_sel)
  from 1 2 d show ?thesis by simp
qed

lemma first_pass_uncached:
  "ScoreAllUnscored example_env 50 1 (db_uncached, []) =
     (None, db_uncached\<lparr>articles := [example_article 1 ''u1'' 10 1]\<rparr>, [''T. d'', ''go''])"
  by (simp add: ScoreAllUnscored_def GetInterests_def db_uncached_def GetUnreadArticles_def
      left_join_def unread_where_def Hour_def wrap64_def ScoreArticle_def GetEmbedding_def
      score_interest_def accumulate_def example_defs cos_same UpdateArticleRelevance_def)

lemma add_new_article:
  "snd (AddArticle 50 (db_uncached\<lparr>articles := [example_article 1 ''u1'' 10 1]\<rparr>) new_article) =
     db_uncached\<lparr>articles := [example_article 1 ''u1'' 10 1, new_article\<lparr>ID := 2, FetchedAt := 50\<rparr>],
                   articles_seq := 2\<rparr>"
  by (simp add: AddArticle_def db_uncached_def new_article_def example_article_def example_feed_def)

text \<open>
  Claim C5 (the code departs from it). The embedding obtained for an interest is not
  written through: after a pass that requested the embedding of the interest \<open>go\<close>,
  the stored interest still has no embedding, and the pass over the next new article
  requests it from the provider again.
\<close>

theorem interest_embedding_requested_again:
  "ScoreAllUnscored example_env 50 1 (db_uncached, []) =
     (None, db_uncached\<lparr>articles := [example_article 1 ''u1'' 10 1]\<rparr>, [''T. d'', ''go'']) \<and>
   user_interests (db_uncached\<lparr>articles := [example_article 1 ''u1'' 10 1]\<rparr>)
     = [example_interest 1 ''go'' 1 []] \<and>
   snd (snd (ScoreAllUnscored example_env 50 1
     (snd (AddArticle 50 (db_uncached\<lparr>articles := [example_article 1 ''u1'' 10 1]\<rparr>) new_article),
      [''T. d'', ''go''])))
     = [''T. d'', ''go'', ''U. d'', ''go'']"
proof -
  have 2: "snd (snd (ScoreAllUnscored example_env 50 1
     (db_uncached\<lparr>articles := [example_article 1 ''u1'' 10 1, new_article\<lparr>ID := 2, FetchedAt := 50\<rparr>],
                   articles_seq := 2\<rparr>, [''T. d'', ''go''])))
     = [''T. d'', ''go'', ''U. d'', ''go'']"
    by (simp add: ScoreAllUnscored_def GetInterests_def db_uncached_def GetUnreadArticles_def
      left_join_def unread_where_def Hour_def wrap64_def ScoreArticle_def GetEmbedding_def order_key_def
      less_eq_prod_def new_article_def
      score_interest_def accumulate_def example_defs cos_same UpdateArticleRelevance_def)
  have 3: "user_interests (db_uncached\<lparr>articles := [example_article 1 ''u1'' 10 1]\<rparr>)
     = [example_interest 1 ''go'' 1 []]"
    by (simp add: db_uncached_def)
  from first_pass_uncached 2 3 show ?thesis by (simp only: add_new_article simp_thms)
qed

end
